theory Spec2Isabelle
  imports Main "HOL-Library.Word"
begin

section \<open>tensor/tensor-common.h: default context, options, ticks, debug flag\<close>

text \<open>
  A shallow embedding of \<^verbatim>\<open>src/tensor/tensor-common.h\<close>. The header's globals
  (the two default registers, \<^verbatim>\<open>g_tick_counter\<close>, \<^verbatim>\<open>debug_mode\<close>) become
  the fields of one state record that every operation takes and returns.
\<close>

subsection \<open>Integer types\<close>

text \<open>Signed machine integers are words read through \<open>sint\<close>.\<close>

type_synonym int32 = "32 word"
type_synonym int64 = "64 word"

subsection \<open>Enumerations and structs\<close>

text \<open>\<^verbatim>\<open>enum DeviceType { kCpuDevice = 0, kCudaDevice = 1 }\<close>\<close>

datatype DeviceType = kCpuDevice | kCudaDevice

text \<open>\<^verbatim>\<open>struct Device { DeviceType device_type; ... }\<close>\<close>

record Device =
  device_type :: DeviceType

text \<open>\<^verbatim>\<open>Device(): device_type(kCpuDevice) { }\<close>\<close>

definition Device_default :: Device where
  "Device_default = \<lparr>device_type = kCpuDevice\<rparr>"

text \<open>\<^verbatim>\<open>Device(DeviceType t): device_type(t) { }\<close>\<close>

definition Device_of :: "DeviceType \<Rightarrow> Device" where
  "Device_of t = \<lparr>device_type = t\<rparr>"

text \<open>
  \<^verbatim>\<open>enum DataType { kDefaultDtype = 0, kFloatDtype = 1, kDoubleDtype = 2 }\<close>.
  An unscoped C++ enumeration is a distinct type over an integer: besides the three
  enumerators it can hold other integers (3 lies within the value range of this
  enumeration), and \<^verbatim>\<open>SizeOf\<close> switches on integer labels. The model keeps the
  type distinct and carries the integer value.
\<close>

datatype DataType = DataType (dtype_value: int)

definition kDefaultDtype :: DataType where
  "kDefaultDtype = DataType 0"

definition kFloatDtype :: DataType where
  "kFloatDtype = DataType 1"

definition kDoubleDtype :: DataType where
  "kDoubleDtype = DataType 2"

text \<open>The enumerators of \<^verbatim>\<open>DataType\<close>, and those that are not the placeholder.\<close>

definition known_dtype :: "DataType \<Rightarrow> bool" where
  "known_dtype d = (d = kDefaultDtype \<or> d = kFloatDtype \<or> d = kDoubleDtype)"

definition concrete_dtype :: "DataType \<Rightarrow> bool" where
  "concrete_dtype d = (d = kFloatDtype \<or> d = kDoubleDtype)"

definition concrete_device :: "Device \<Rightarrow> bool" where
  "concrete_device d = (device_type d = kCpuDevice \<or> device_type d = kCudaDevice)"

subsection \<open>Failures\<close>

text \<open>
  Modelled from the spec: the macro \<^verbatim>\<open>KALDI_ERR\<close> is not defined in this header;
  the spec describes it as failing fatally with a diagnostic, so a use of it ends the
  call with \<open>KaldiError\<close> carrying the streamed message, and code after it is not
  reached. \<open>NoReturnValue\<close> is control reaching the closing brace of a function that
  must return a value: the call raises no diagnostic and has no defined result
  (undefined behaviour in C++).
\<close>

datatype failure = KaldiError string | NoReturnValue

subsection \<open>Printing integers\<close>

text \<open>What \<^verbatim>\<open>operator<<\<close> prints for an \<^verbatim>\<open>int32\<close>: its decimal digits.\<close>

definition digit_char :: "nat \<Rightarrow> char" where
  "digit_char n = ''0123456789'' ! (n mod 10)"

fun dec_of_nat :: "nat \<Rightarrow> string" where
  "dec_of_nat n = (if n < 10 then [digit_char n] else dec_of_nat (n div 10) @ [digit_char n])"

definition dec_of_int32 :: "int32 \<Rightarrow> string" where
  "dec_of_int32 w = (if sint w < 0 then CHR ''-'' # dec_of_nat (nat (- sint w))
                     else dec_of_nat (nat (sint w)))"

subsection \<open>SizeOf\<close>

text \<open>
  \<^verbatim>\<open>
  inline int32 SizeOf(DataType dtype) {
    switch(dtype) {
      case 0: return 4;
      case 1: return 8;
      case 2: KALDI_ERR << "Invalid data-type " << int32(dtype); return 0;
    }
  }
  \<close>
  The switch has no \<^verbatim>\<open>default\<close> label: any other value leaves the switch and
  reaches the end of the function.
\<close>

definition SizeOf :: "DataType \<Rightarrow> failure + int32" where
  "SizeOf dtype =
     (if dtype_value dtype = 0 then Inr 4
      else if dtype_value dtype = 1 then Inr 8
      else if dtype_value dtype = 2 then
        Inl (KaldiError (''Invalid data-type '' @ dec_of_int32 (word_of_int (dtype_value dtype))))
      else Inl NoReturnValue)"

subsection \<open>The globals\<close>

text \<open>
  The header declares \<^verbatim>\<open>extern int64 g_tick_counter\<close> and
  \<^verbatim>\<open>extern bool debug_mode\<close>; the two default registers are the variables behind
  \<^verbatim>\<open>GetDefaultDevice\<close>/\<^verbatim>\<open>SetDefaultDevice\<close> and
  \<^verbatim>\<open>GetDefaultDtype\<close>/\<^verbatim>\<open>SetDefaultDtype\<close>.
\<close>

record tensor_state =
  default_device :: Device
  default_dtype :: DataType
  g_tick_counter :: int64
  debug_mode :: bool

text \<open>
  Modelled from the spec: the definitions of the globals are in
  \<^verbatim>\<open>tensor-common.cc\<close>, which is not among the sources. The spec gives the
  initial values: device CPU, numeric type "an implementation-chosen concrete default"
  (the parameter \<open>d0\<close>), debug flag false; the header's comment on
  \<^verbatim>\<open>g_tick_counter\<close> says it is initialised from zero.
\<close>

definition initial_state :: "DataType \<Rightarrow> tensor_state" where
  "initial_state d0 =
     \<lparr>default_device = Device_default, default_dtype = d0,
      g_tick_counter = 0, debug_mode = False\<rparr>"

subsection \<open>Default context registers\<close>

text \<open>
  Modelled from the spec: \<^verbatim>\<open>GetDefaultDevice\<close>, \<^verbatim>\<open>SetDefaultDevice\<close>,
  \<^verbatim>\<open>GetDefaultDtype\<close> and \<^verbatim>\<open>SetDefaultDtype\<close> are only declared in the
  header (their bodies are in \<^verbatim>\<open>tensor-common.cc\<close>). The spec: "a getter returns
  exactly the value most recently installed by a setter (or the initial value if none was
  ever set); a setter unconditionally overwrites the register". A getter returns its
  value together with the state it leaves.
\<close>

definition GetDefaultDevice :: "tensor_state \<Rightarrow> Device \<times> tensor_state" where
  "GetDefaultDevice s = (default_device s, s)"

definition SetDefaultDevice :: "Device \<Rightarrow> tensor_state \<Rightarrow> tensor_state" where
  "SetDefaultDevice dev s = s\<lparr>default_device := dev\<rparr>"

definition GetDefaultDtype :: "tensor_state \<Rightarrow> DataType \<times> tensor_state" where
  "GetDefaultDtype s = (default_dtype s, s)"

definition SetDefaultDtype :: "DataType \<Rightarrow> tensor_state \<Rightarrow> tensor_state" where
  "SetDefaultDtype dt s = s\<lparr>default_dtype := dt\<rparr>"

subsection \<open>Scoped guards\<close>

text \<open>
  \<^verbatim>\<open>
  class WithDeviceAs {
   public:
    inline WithDeviceAs(Device device): prev_default_(GetDefaultDevice()) {
      SetDefaultDevice(device);
    }
    ~WithDeviceAs() { SetDefaultDevice(prev_default_); }
   private:
    Device prev_default_;
  };
  \<close>
  and \<^verbatim>\<open>WithDtypeAs\<close>, the same over \<^verbatim>\<open>DataType\<close>. A guard object is a
  record of its one member; the constructor returns the object and the new state.
\<close>

record WithDeviceAs =
  device_prev_default :: Device

record WithDtypeAs =
  dtype_prev_default :: DataType

definition WithDeviceAs_ctor :: "Device \<Rightarrow> tensor_state \<Rightarrow> WithDeviceAs \<times> tensor_state" where
  "WithDeviceAs_ctor dev s =
     (let (prev, s1) = GetDefaultDevice s;
          s2 = SetDefaultDevice dev s1
      in (\<lparr>device_prev_default = prev\<rparr>, s2))"

definition WithDeviceAs_dtor :: "WithDeviceAs \<Rightarrow> tensor_state \<Rightarrow> tensor_state" where
  "WithDeviceAs_dtor g s = SetDefaultDevice (device_prev_default g) s"

definition WithDtypeAs_ctor :: "DataType \<Rightarrow> tensor_state \<Rightarrow> WithDtypeAs \<times> tensor_state" where
  "WithDtypeAs_ctor dt s =
     (let (prev, s1) = GetDefaultDtype s;
          s2 = SetDefaultDtype dt s1
      in (\<lparr>dtype_prev_default = prev\<rparr>, s2))"

definition WithDtypeAs_dtor :: "WithDtypeAs \<Rightarrow> tensor_state \<Rightarrow> tensor_state" where
  "WithDtypeAs_dtor g s = SetDefaultDtype (dtype_prev_default g) s"

text \<open>
  Nested scopes. C++ destroys the automatic objects of nested blocks in the reverse order
  of their construction, so the live guards form a stack, innermost first.
  \<open>enter_scopes\<close> opens one block per requested override, each inside the previous one;
  \<open>exit_scopes n\<close> leaves the \<open>n\<close> innermost blocks.
\<close>

datatype override = OverrideDevice Device | OverrideDtype DataType

datatype guard = DeviceGuard WithDeviceAs | DtypeGuard WithDtypeAs

fun construct :: "override \<Rightarrow> tensor_state \<Rightarrow> guard \<times> tensor_state" where
  "construct (OverrideDevice dev) s = (let (g, s1) = WithDeviceAs_ctor dev s in (DeviceGuard g, s1))"
| "construct (OverrideDtype dt) s = (let (g, s1) = WithDtypeAs_ctor dt s in (DtypeGuard g, s1))"

fun destroy :: "guard \<Rightarrow> tensor_state \<Rightarrow> tensor_state" where
  "destroy (DeviceGuard g) s = WithDeviceAs_dtor g s"
| "destroy (DtypeGuard g) s = WithDtypeAs_dtor g s"

fun enter_scopes :: "override list \<Rightarrow> guard list \<times> tensor_state \<Rightarrow> guard list \<times> tensor_state" where
  "enter_scopes [] cfg = cfg"
| "enter_scopes (ov # ovs) (stk, s) =
     (let (g, s1) = construct ov s in enter_scopes ovs (g # stk, s1))"

fun exit_scopes :: "nat \<Rightarrow> guard list \<times> tensor_state \<Rightarrow> guard list \<times> tensor_state" where
  "exit_scopes 0 cfg = cfg"
| "exit_scopes (Suc n) ([], s) = ([], s)"
| "exit_scopes (Suc n) (g # stk, s) = exit_scopes n (stk, destroy g s)"

subsection \<open>TensorOptions\<close>

text \<open>
  \<^verbatim>\<open>struct TensorOptions { DataType dtype; Device device; ... }\<close> with its
  constructors; members are initialised in declaration order, \<^verbatim>\<open>dtype\<close> first.
  \<^verbatim>\<open>
  TensorOptions(): dtype(GetDefaultDtype()), device(GetDefaultDevice()) { }
  TensorOptions(DataType dtype): dtype(dtype), device(GetDefaultDevice()) { }
  TensorOptions(Device device): dtype(GetDefaultDtype()), device(device) { }
  TensorOptions(DeviceType device_type): dtype(GetDefaultDtype()), device(device_type) { }
  TensorOptions(DataType dtype, Device device): dtype(dtype), device(device) { }
  TensorOptions(DataType dtype, Device device_type): dtype(dtype), device(device_type) { }
  TensorOptions(const TensorOptions &other): dtype(other.dtype), device(other.device) { }
  \<close>
  The fifth and sixth constructors have the same parameter types and the same effect;
  \<open>TensorOptions_dtype_device\<close> stands for both.
\<close>

record TensorOptions =
  dtype :: DataType
  device :: Device

definition TensorOptions_noargs :: "tensor_state \<Rightarrow> TensorOptions \<times> tensor_state" where
  "TensorOptions_noargs s =
     (let (dt, s1) = GetDefaultDtype s;
          (dev, s2) = GetDefaultDevice s1
      in (\<lparr>dtype = dt, device = dev\<rparr>, s2))"

definition TensorOptions_dtype :: "DataType \<Rightarrow> tensor_state \<Rightarrow> TensorOptions \<times> tensor_state" where
  "TensorOptions_dtype dt s =
     (let (dev, s1) = GetDefaultDevice s
      in (\<lparr>dtype = dt, device = dev\<rparr>, s1))"

definition TensorOptions_device :: "Device \<Rightarrow> tensor_state \<Rightarrow> TensorOptions \<times> tensor_state" where
  "TensorOptions_device dev s =
     (let (dt, s1) = GetDefaultDtype s
      in (\<lparr>dtype = dt, device = dev\<rparr>, s1))"

definition TensorOptions_device_type :: "DeviceType \<Rightarrow> tensor_state \<Rightarrow> TensorOptions \<times> tensor_state" where
  "TensorOptions_device_type t s =
     (let (dt, s1) = GetDefaultDtype s
      in (\<lparr>dtype = dt, device = Device_of t\<rparr>, s1))"

definition TensorOptions_dtype_device :: "DataType \<Rightarrow> Device \<Rightarrow> tensor_state \<Rightarrow> TensorOptions \<times> tensor_state" where
  "TensorOptions_dtype_device dt dev s = (\<lparr>dtype = dt, device = dev\<rparr>, s)"

definition TensorOptions_copy :: "TensorOptions \<Rightarrow> tensor_state \<Rightarrow> TensorOptions \<times> tensor_state" where
  "TensorOptions_copy other s = (\<lparr>dtype = dtype other, device = device other\<rparr>, s)"

subsection \<open>Tick counter and debug flag\<close>

text \<open>
  \<^verbatim>\<open>inline int64 NextTick() { return ++g_tick_counter; }\<close> and
  \<^verbatim>\<open>inline int64 CurrentTick() { return g_tick_counter; }\<close>. The counter is a 64-bit
  word read through \<open>sint\<close>. Incrementing the largest \<^verbatim>\<open>int64\<close> is an overflow,
  which C++ leaves undefined; the model takes the two's-complement result of the
  64-bit addition, the smallest \<^verbatim>\<open>int64\<close>.
\<close>

definition NextTick :: "tensor_state \<Rightarrow> int64 \<times> tensor_state" where
  "NextTick s =
     (let s1 = s\<lparr>g_tick_counter := g_tick_counter s + 1\<rparr>
      in (g_tick_counter s1, s1))"

definition CurrentTick :: "tensor_state \<Rightarrow> int64 \<times> tensor_state" where
  "CurrentTick s = (g_tick_counter s, s)"

text \<open>
  \<^verbatim>\<open>inline bool DebugMode() { return debug_mode; }\<close> and
  \<^verbatim>\<open>inline void SetDebugMode(bool b) { debug_mode = b; }\<close>
\<close>

definition DebugMode :: "tensor_state \<Rightarrow> bool \<times> tensor_state" where
  "DebugMode s = (debug_mode s, s)"

definition SetDebugMode :: "bool \<Rightarrow> tensor_state \<Rightarrow> tensor_state" where
  "SetDebugMode b s = s\<lparr>debug_mode := b\<rparr>"

text \<open>\<open>NextTick\<close> called \<open>n\<close> times in a row, with the values it returned, in order.\<close>

fun NextTick_times :: "nat \<Rightarrow> tensor_state \<Rightarrow> int64 list \<times> tensor_state" where
  "NextTick_times 0 s = ([], s)"
| "NextTick_times (Suc n) s =
     (let (t, s1) = NextTick s;
          (ts, s2) = NextTick_times n s1
      in (t # ts, s2))"

subsection \<open>Sequences of calls\<close>

text \<open>
  A client of the header is a sequence of calls of its free functions. \<open>perform\<close> runs
  one call and gives what it returned; \<open>run\<close> runs a sequence from left to right and
  collects the returned values.
\<close>

datatype call =
    Call_GetDefaultDevice
  | Call_SetDefaultDevice Device
  | Call_GetDefaultDtype
  | Call_SetDefaultDtype DataType
  | Call_NextTick
  | Call_CurrentTick
  | Call_DebugMode
  | Call_SetDebugMode bool

datatype reply =
    Reply_Device Device
  | Reply_Dtype DataType
  | Reply_Tick int64
  | Reply_Bool bool
  | Reply_Void

fun perform :: "call \<Rightarrow> tensor_state \<Rightarrow> reply \<times> tensor_state" where
  "perform Call_GetDefaultDevice s = (let (d, s1) = GetDefaultDevice s in (Reply_Device d, s1))"
| "perform (Call_SetDefaultDevice d) s = (Reply_Void, SetDefaultDevice d s)"
| "perform Call_GetDefaultDtype s = (let (d, s1) = GetDefaultDtype s in (Reply_Dtype d, s1))"
| "perform (Call_SetDefaultDtype d) s = (Reply_Void, SetDefaultDtype d s)"
| "perform Call_NextTick s = (let (t, s1) = NextTick s in (Reply_Tick t, s1))"
| "perform Call_CurrentTick s = (let (t, s1) = CurrentTick s in (Reply_Tick t, s1))"
| "perform Call_DebugMode s = (let (b, s1) = DebugMode s in (Reply_Bool b, s1))"
| "perform (Call_SetDebugMode b) s = (Reply_Void, SetDebugMode b s)"

fun run :: "call list \<Rightarrow> tensor_state \<Rightarrow> reply list \<times> tensor_state" where
  "run [] s = ([], s)"
| "run (c # cs) s =
     (let (r, s1) = perform c s;
          (rs, s2) = run cs s1
      in (r # rs, s2))"

text \<open>
  The spec's words for what a read should give, as functions of the calls made so far:
  the value most recently installed by a setter, the argument of the most recent
  \<^verbatim>\<open>SetDebugMode\<close>, the tick most recently issued by \<^verbatim>\<open>NextTick\<close>
  (\<open>None\<close> when there was no such call).
\<close>

fun last_installed_device :: "call list \<Rightarrow> Device option" where
  "last_installed_device [] = None"
| "last_installed_device (c # cs) =
     (case last_installed_device cs of
        Some d \<Rightarrow> Some d
      | None \<Rightarrow> (case c of Call_SetDefaultDevice d \<Rightarrow> Some d | _ \<Rightarrow> None))"

fun last_installed_dtype :: "call list \<Rightarrow> DataType option" where
  "last_installed_dtype [] = None"
| "last_installed_dtype (c # cs) =
     (case last_installed_dtype cs of
        Some d \<Rightarrow> Some d
      | None \<Rightarrow> (case c of Call_SetDefaultDtype d \<Rightarrow> Some d | _ \<Rightarrow> None))"

fun last_debug_mode_set :: "call list \<Rightarrow> bool option" where
  "last_debug_mode_set [] = None"
| "last_debug_mode_set (c # cs) =
     (case last_debug_mode_set cs of
        Some b \<Rightarrow> Some b
      | None \<Rightarrow> (case c of Call_SetDebugMode b \<Rightarrow> Some b | _ \<Rightarrow> None))"

fun last_issued_tick :: "(call \<times> reply) list \<Rightarrow> int64 option" where
  "last_issued_tick [] = None"
| "last_issued_tick ((c, r) # crs) =
     (case last_issued_tick crs of
        Some t \<Rightarrow> Some t
      | None \<Rightarrow> (case (c, r) of (Call_NextTick, Reply_Tick t) \<Rightarrow> Some t | _ \<Rightarrow> None))"

section \<open>Properties\<close>

declare dec_of_nat.simps [simp del]

lemmas register_defs =
  GetDefaultDevice_def SetDefaultDevice_def GetDefaultDtype_def SetDefaultDtype_def

lemmas guard_defs =
  WithDeviceAs_ctor_def WithDeviceAs_dtor_def WithDtypeAs_ctor_def WithDtypeAs_dtor_def

lemmas options_defs =
  TensorOptions_noargs_def TensorOptions_dtype_def TensorOptions_device_def
  TensorOptions_device_type_def TensorOptions_dtype_device_def TensorOptions_copy_def

lemmas call_defs =
  register_defs NextTick_def CurrentTick_def DebugMode_def SetDebugMode_def

subsection \<open>SizeOf\<close>

lemma dec_of_int32_2: "dec_of_int32 2 = ''2''"
  by (simp add: dec_of_int32_def dec_of_nat.simps digit_char_def)

text \<open>What \<open>SizeOf\<close> does on every integer value of its argument.\<close>

lemma SizeOf_cases:
  "SizeOf (DataType v) =
     (if v = 0 then Inr 4
      else if v = 1 then Inr 8
      else if v = 2 then Inl (KaldiError ''Invalid data-type 2'')
      else Inl NoReturnValue)"
  by (simp add: SizeOf_def dec_of_int32_2)

text \<open>
  C1 (the code departs from the claim): every concrete variant, \<^verbatim>\<open>kFloatDtype\<close> and
  \<^verbatim>\<open>kDoubleDtype\<close>, should get a byte width and none should reach the error branch.
  In the code the label \<^verbatim>\<open>case 2\<close>, the value of \<^verbatim>\<open>kDoubleDtype\<close>, is the branch
  that raises \<^verbatim>\<open>KALDI_ERR\<close>; the two widths sit on the labels of
  \<^verbatim>\<open>kDefaultDtype\<close> and \<^verbatim>\<open>kFloatDtype\<close>. The theorem evaluates \<open>SizeOf\<close> at
  the three enumerators.
\<close>

theorem SizeOf_kDoubleDtype_is_error:
  "concrete_dtype kDoubleDtype \<and>
   SizeOf kDefaultDtype = Inr 4 \<and>
   SizeOf kFloatDtype = Inr 8 \<and>
   SizeOf kDoubleDtype = Inl (KaldiError ''Invalid data-type 2'')"
  by (simp add: SizeOf_def kDefaultDtype_def kFloatDtype_def kDoubleDtype_def
      concrete_dtype_def dec_of_int32_2)

text \<open>
  C3 (the code departs from the claim): a value outside the enumerators should end in
  the fatal diagnostic naming it. The value 3 matches no label, the switch has no
  \<^verbatim>\<open>default\<close>, and the function ends without the diagnostic and without a
  return statement.
\<close>

theorem SizeOf_unknown_value_no_diagnostic:
  "\<not> known_dtype (DataType 3) \<and> SizeOf (DataType 3) = Inl NoReturnValue"
  by (simp add: SizeOf_def known_dtype_def kDefaultDtype_def kFloatDtype_def kDoubleDtype_def)

subsection \<open>Device and TensorOptions\<close>

lemma concrete_device_all: "concrete_device d"
  by (cases "device_type d") (simp_all add: concrete_device_def)

text \<open>
  C10: a \<^verbatim>\<open>Device\<close> constructed with no arguments has device type
  \<^verbatim>\<open>kCpuDevice\<close>; \<^verbatim>\<open>TensorOptions\<close> constructed from a bare device-type tag
  \<open>t\<close> holds the device that consists of exactly that tag, in every state.
\<close>

theorem Device_default_and_tag_promotion:
  "device_type Device_default = kCpuDevice \<and>
   device_type (Device_of t) = t \<and>
   device (fst (TensorOptions_device_type t s)) = \<lparr>device_type = t\<rparr> \<and>
   device_type (device (fst (TensorOptions_device_type t s))) = t"
  by (simp add: Device_default_def TensorOptions_device_type_def Device_of_def GetDefaultDtype_def)

text \<open>
  C5: in every state \<open>s\<close>, \<^verbatim>\<open>TensorOptions()\<close> is the pair of the two registers'
  current contents; with an explicit dtype it is that dtype and the current default
  device; with an explicit device (or device-type tag) it is the current default dtype
  and that device; with both it is exactly the supplied pair. Each constructor returns
  the finished value, holding what the registers contained in the state it was called
  in, and leaves the state as it was.
\<close>

theorem TensorOptions_resolution:
  "TensorOptions_noargs s =
     (\<lparr>dtype = fst (GetDefaultDtype s), device = fst (GetDefaultDevice s)\<rparr>, s) \<and>
   TensorOptions_dtype dt s = (\<lparr>dtype = dt, device = fst (GetDefaultDevice s)\<rparr>, s) \<and>
   TensorOptions_device dev s = (\<lparr>dtype = fst (GetDefaultDtype s), device = dev\<rparr>, s) \<and>
   TensorOptions_device_type t s =
     (\<lparr>dtype = fst (GetDefaultDtype s), device = Device_of t\<rparr>, s) \<and>
   TensorOptions_dtype_device dt dev s = (\<lparr>dtype = dt, device = dev\<rparr>, s) \<and>
   fst (GetDefaultDtype s) = default_dtype s \<and>
   fst (GetDefaultDevice s) = default_device s"
  by (simp add: options_defs register_defs)

text \<open>
  C2, as amended: every constructor yields a concrete device. The dtype of the result
  is concrete when the value it is taken from is: the dtype register for the
  constructors that omit the dtype, the supplied dtype for those that take one, the
  copied options for the copy constructor. (The claim as stated, with no such
  condition, fails: see the counterexample below.)
\<close>

theorem TensorOptions_concrete:
  "(concrete_dtype (fst (GetDefaultDtype s)) \<longrightarrow>
      concrete_dtype (dtype (fst (TensorOptions_noargs s))) \<and>
      concrete_dtype (dtype (fst (TensorOptions_device dev s))) \<and>
      concrete_dtype (dtype (fst (TensorOptions_device_type t s)))) \<and>
   (concrete_dtype dt \<longrightarrow>
      concrete_dtype (dtype (fst (TensorOptions_dtype dt s))) \<and>
      concrete_dtype (dtype (fst (TensorOptions_dtype_device dt dev s)))) \<and>
   (concrete_dtype (dtype other) \<longrightarrow>
      concrete_dtype (dtype (fst (TensorOptions_copy other s)))) \<and>
   concrete_device (device (fst (TensorOptions_noargs s))) \<and>
   concrete_device (device (fst (TensorOptions_dtype dt s))) \<and>
   concrete_device (device (fst (TensorOptions_device dev s))) \<and>
   concrete_device (device (fst (TensorOptions_device_type t s))) \<and>
   concrete_device (device (fst (TensorOptions_dtype_device dt dev s))) \<and>
   concrete_device (device (fst (TensorOptions_copy other s)))"
  by (simp add: options_defs register_defs concrete_device_all)

text \<open>
  Witness for C2 as amended: the register holds \<^verbatim>\<open>kFloatDtype\<close>, the supplied dtype
  is \<^verbatim>\<open>kDoubleDtype\<close>, the copied options hold \<^verbatim>\<open>kFloatDtype\<close>.
\<close>

theorem TensorOptions_concrete_witness:
  "concrete_dtype (fst (GetDefaultDtype (initial_state kFloatDtype))) \<and>
   concrete_dtype kDoubleDtype \<and>
   concrete_dtype (dtype \<lparr>dtype = kFloatDtype, device = Device_of kCudaDevice\<rparr>) \<and>
   dtype (fst (TensorOptions_noargs (initial_state kFloatDtype))) = kFloatDtype \<and>
   concrete_dtype (dtype (fst (TensorOptions_noargs (initial_state kFloatDtype)))) \<and>
   concrete_dtype (dtype (fst (TensorOptions_dtype kDoubleDtype (initial_state kFloatDtype)))) \<and>
   concrete_dtype (dtype (fst (TensorOptions_copy
      \<lparr>dtype = kFloatDtype, device = Device_of kCudaDevice\<rparr> (initial_state kFloatDtype))))"
  using TensorOptions_concrete [of "initial_state kFloatDtype" "Device_of kCudaDevice"
      kCudaDevice kDoubleDtype "\<lparr>dtype = kFloatDtype, device = Device_of kCudaDevice\<rparr>"]
  by (simp add: concrete_dtype_def GetDefaultDtype_def initial_state_def
      TensorOptions_noargs_def GetDefaultDevice_def)

text \<open>
  Counterexample to C2 as stated: \<^verbatim>\<open>TensorOptions(kDefaultDtype)\<close> copies its
  argument into the \<^verbatim>\<open>dtype\<close> member, so the result holds the placeholder.
\<close>

theorem TensorOptions_placeholder_counterexample:
  "dtype (fst (TensorOptions_dtype kDefaultDtype (initial_state kFloatDtype))) = kDefaultDtype \<and>
   \<not> concrete_dtype (dtype (fst (TensorOptions_dtype kDefaultDtype (initial_state kFloatDtype))))"
  by (simp add: TensorOptions_dtype_def register_defs concrete_dtype_def
      kDefaultDtype_def kFloatDtype_def kDoubleDtype_def)

subsection \<open>Scoped guards\<close>

lemma destroy_construct: "destroy (fst (construct ov s)) (snd (construct ov s)) = s"
  by (cases ov) (simp_all add: guard_defs register_defs)

lemma enter_scopes_append:
  "enter_scopes (xs @ ys) cfg = enter_scopes ys (enter_scopes xs cfg)"
  by (induction xs cfg rule: enter_scopes.induct) (simp_all split: prod.splits)

lemma exit_enter_scopes:
  "exit_scopes (length ovs) (enter_scopes ovs (stk, s)) = (stk, s)"
proof (induction ovs arbitrary: stk s rule: rev_induct)
  case Nil
  then show ?case by simp
next
  case (snoc ov ovs)
  obtain stk1 s1 where mid: "enter_scopes ovs (stk, s) = (stk1, s1)"
    by (cases "enter_scopes ovs (stk, s)")
  have "exit_scopes (Suc (length ovs)) (enter_scopes [ov] (stk1, s1)) =
        exit_scopes (length ovs) (stk1, s1)"
    using destroy_construct [of ov s1] by (simp add: case_prod_beta)
  with mid snoc.IH [of stk s] show ?case
    by (simp add: enter_scopes_append)
qed

lemma exit_inner_scopes:
  "exit_scopes (length inner) (enter_scopes (outer @ inner) ([], s)) = enter_scopes outer ([], s)"
proof -
  obtain stk1 s1 where "enter_scopes outer ([], s) = (stk1, s1)"
    by (cases "enter_scopes outer ([], s)")
  then show ?thesis
    by (simp add: enter_scopes_append exit_enter_scopes)
qed

lemma default_dtype_enter_snoc:
  "default_dtype (snd (enter_scopes (outer @ [OverrideDtype dt]) cfg)) = dt"
  by (cases "enter_scopes outer cfg")
    (simp add: enter_scopes_append guard_defs register_defs)

lemma default_device_enter_snoc:
  "default_device (snd (enter_scopes (outer @ [OverrideDevice dev]) cfg)) = dev"
  by (cases "enter_scopes outer cfg")
    (simp add: enter_scopes_append guard_defs register_defs)

text \<open>
  C4: in every state \<open>s\<close>, constructing a guard and destroying it gives back \<open>s\<close>, so
  the register holds what it held at the guard's construction; the destructor writes
  the captured value back whatever state \<open>s'\<close> the guarded block has reached; while the
  guard lives the register holds the installed value. For nested guards
  (\<^verbatim>\<open>WithDtypeAs\<close> and \<^verbatim>\<open>WithDeviceAs\<close> in any mixture): leaving the inner
  blocks, innermost first, gives exactly the guard stack and state that were current
  when the outer guards had just been constructed, so the register of the innermost
  remaining guard holds the value that guard installed; leaving all blocks gives the
  original state.
\<close>

theorem guards_restore_lifo:
  "destroy (fst (construct ov s)) (snd (construct ov s)) = s \<and>
   fst (GetDefaultDtype (WithDtypeAs_dtor (fst (WithDtypeAs_ctor dt s)) s')) =
     fst (GetDefaultDtype s) \<and>
   fst (GetDefaultDevice (WithDeviceAs_dtor (fst (WithDeviceAs_ctor dev s)) s')) =
     fst (GetDefaultDevice s) \<and>
   fst (GetDefaultDtype (snd (WithDtypeAs_ctor dt s))) = dt \<and>
   fst (GetDefaultDevice (snd (WithDeviceAs_ctor dev s))) = dev \<and>
   exit_scopes (length inner) (enter_scopes (outer @ inner) ([], s)) =
     enter_scopes outer ([], s) \<and>
   fst (GetDefaultDtype (snd (exit_scopes (length inner)
      (enter_scopes ((outer @ [OverrideDtype dt]) @ inner) ([], s))))) = dt \<and>
   fst (GetDefaultDevice (snd (exit_scopes (length inner)
      (enter_scopes ((outer @ [OverrideDevice dev]) @ inner) ([], s))))) = dev \<and>
   exit_scopes (length inner) (enter_scopes inner ([], s)) = ([], s)"
proof -
  have single: "destroy (fst (construct ov s)) (snd (construct ov s)) = s"
    by (rule destroy_construct)
  have dtors:
    "fst (GetDefaultDtype (WithDtypeAs_dtor (fst (WithDtypeAs_ctor dt s)) s')) =
       fst (GetDefaultDtype s)"
    "fst (GetDefaultDevice (WithDeviceAs_dtor (fst (WithDeviceAs_ctor dev s)) s')) =
       fst (GetDefaultDevice s)"
    by (simp_all add: guard_defs register_defs)
  have ctors:
    "fst (GetDefaultDtype (snd (WithDtypeAs_ctor dt s))) = dt"
    "fst (GetDefaultDevice (snd (WithDeviceAs_ctor dev s))) = dev"
    by (simp_all add: guard_defs register_defs)
  have nested:
    "fst (GetDefaultDtype (snd (exit_scopes (length inner)
        (enter_scopes ((outer @ [OverrideDtype dt]) @ inner) ([], s))))) = dt"
    "fst (GetDefaultDevice (snd (exit_scopes (length inner)
        (enter_scopes ((outer @ [OverrideDevice dev]) @ inner) ([], s))))) = dev"
    unfolding exit_inner_scopes
    by (simp_all add: register_defs default_dtype_enter_snoc default_device_enter_snoc)
  show ?thesis
    using single dtors ctors nested exit_inner_scopes [of inner outer s]
      exit_enter_scopes [of inner "[]" s]
    by simp
qed

text \<open>
  The spec's example: default dtype Float, guard G1 to Double, inside it guard G2 to
  Float. With both alive the register holds Float, after G2 is destroyed Double, after
  G1 is destroyed Float.
\<close>

lemma guards_spec_example:
  "map (\<lambda>n. default_dtype (snd (exit_scopes n
      (enter_scopes [OverrideDtype kDoubleDtype, OverrideDtype kFloatDtype]
        ([], initial_state kFloatDtype))))) [0, 1, 2] =
   [kFloatDtype, kDoubleDtype, kFloatDtype]"
  by (simp add: guard_defs register_defs initial_state_def numeral_2_eq_2)

subsection \<open>Tick counter\<close>

lemma NextTick_times_values:
  "fst (NextTick_times n s) = map (\<lambda>k. g_tick_counter s + word_of_nat (Suc k)) [0..<n]"
proof (induction n arbitrary: s)
  case 0
  then show ?case by simp
next
  case (Suc n)
  have "fst (NextTick_times (Suc n) s) =
        (g_tick_counter s + 1) # map (\<lambda>k. g_tick_counter s + 1 + word_of_nat (Suc k)) [0..<n]"
    using Suc [of "snd (NextTick s)"]
    by (simp add: case_prod_beta NextTick_def Let_def del: upt_Suc of_nat_Suc)
  also have "\<dots> = map (\<lambda>k. g_tick_counter s + word_of_nat (Suc k)) [0..<Suc n]"
    by (simp add: map_upt_Suc add.assoc del: upt_Suc)
  finally show ?case .
qed

lemma NextTick_times_length: "length (fst (NextTick_times n s)) = n"
  by (simp add: NextTick_times_values)

lemma NextTick_times_nth:
  "i < n \<Longrightarrow> fst (NextTick_times n s) ! i = g_tick_counter s + word_of_nat (Suc i)"
  by (simp add: NextTick_times_values del: of_nat_Suc)

lemma NextTick_times_counter:
  "g_tick_counter (snd (NextTick_times n s)) = g_tick_counter s + word_of_nat n"
  by (induction n arbitrary: s) (simp_all add: case_prod_beta NextTick_def Let_def)

lemma sint_word_of_nat_small:
  assumes "k < 2 ^ 63"
  shows "sint (word_of_nat k :: int64) = int k"
proof -
  have "int k < 2 ^ 63"
    using assms by (metis of_nat_less_iff of_nat_numeral of_nat_power)
  then have "signed_take_bit 63 (int k) = int k"
    by (intro signed_take_bit_int_eq_self) simp_all
  then show ?thesis
    by (simp add: signed_of_nat)
qed

lemma sint_ticks:
  assumes "n < 2 ^ 63" and "g_tick_counter s = 0"
  shows "map sint (fst (NextTick_times n s)) = map int [1..<Suc n]"
proof -
  have "map sint (fst (NextTick_times n s)) =
        map (\<lambda>k. sint (word_of_nat (Suc k) :: int64)) [0..<n]"
    using assms(2) by (simp add: NextTick_times_values comp_def del: of_nat_Suc)
  also have "\<dots> = map (\<lambda>k. int (Suc k)) [0..<n]"
    using assms(1) by (intro map_cong refl sint_word_of_nat_small) simp
  also have "\<dots> = map int [1..<Suc n]"
    by (simp add: map_Suc_upt [symmetric] del: upt_Suc)
  finally show ?thesis .
qed

text \<open>
  C6, as amended: starting from counter value 0, \<^verbatim>\<open>NextTick\<close> called \<open>N\<close> times in
  a row, for \<open>N\<close> below \<open>2 ^ 63\<close> (the counter stays within \<^verbatim>\<open>int64\<close>), returns
  the \<open>N\<close> integers \<open>1, 2, \<dots>, N\<close>: strictly increasing, pairwise distinct, the first
  of them 1. Every call, in any state \<open>s'\<close>, adds one to the counter (at the width of
  \<^verbatim>\<open>int64\<close>) and returns the new value.
\<close>

theorem NextTick_sequence:
  assumes "g_tick_counter s = 0" and "N < 2 ^ 63"
  shows "length (fst (NextTick_times N s)) = N \<and>
         map sint (fst (NextTick_times N s)) = map int [1..<Suc N] \<and>
         sorted_wrt (<) (map sint (fst (NextTick_times N s))) \<and>
         distinct (fst (NextTick_times N s)) \<and>
         (0 < N \<longrightarrow> hd (fst (NextTick_times N s)) = 1) \<and>
         fst (NextTick s') = g_tick_counter s' + 1 \<and>
         g_tick_counter (snd (NextTick s')) = g_tick_counter s' + 1 \<and>
         g_tick_counter (snd (NextTick_times N s)) = word_of_nat N"
proof -
  let ?ts = "fst (NextTick_times N s)"
  have vals: "map sint ?ts = map int [1..<Suc N]"
    using assms by (simp add: sint_ticks)
  have len: "length ?ts = N"
    by (rule NextTick_times_length)
  have incr: "sorted_wrt (<) (map sint ?ts)"
    unfolding vals by (simp add: sorted_wrt_map del: upt_Suc)
  have "distinct (map sint ?ts)"
    unfolding vals by (simp add: distinct_map del: upt_Suc)
  then have dist: "distinct ?ts"
    by (simp add: distinct_map)
  have first: "0 < N \<longrightarrow> hd ?ts = 1"
    using assms(1) by (cases N) (simp_all add: NextTick_def Let_def case_prod_beta)
  show ?thesis
    using vals len incr dist first assms(1)
    by (simp add: NextTick_def Let_def NextTick_times_counter)
qed

text \<open>Witness for C6 as amended: three calls from the initial state return 1, 2, 3.\<close>

theorem NextTick_sequence_witness:
  "g_tick_counter (initial_state kFloatDtype) = 0 \<and> (3::nat) < 2 ^ 63 \<and>
   fst (NextTick_times 3 (initial_state kFloatDtype)) = [1, 2, 3] \<and>
   map sint (fst (NextTick_times 3 (initial_state kFloatDtype))) = [1, 2, 3] \<and>
   sorted_wrt (<) (map sint (fst (NextTick_times 3 (initial_state kFloatDtype)))) \<and>
   distinct (fst (NextTick_times 3 (initial_state kFloatDtype))) \<and>
   hd (fst (NextTick_times 3 (initial_state kFloatDtype))) = 1"
proof -
  have h1: "g_tick_counter (initial_state kFloatDtype) = 0"
    by (simp add: initial_state_def)
  have h2: "(3::nat) < 2 ^ 63"
    by simp
  have vals: "fst (NextTick_times 3 (initial_state kFloatDtype)) = [1, 2, 3]"
    by (simp add: numeral_3_eq_3 NextTick_def Let_def initial_state_def)
  from NextTick_sequence [OF h1 h2, of "initial_state kFloatDtype"]
  have incr: "sorted_wrt (<) (map sint (fst (NextTick_times 3 (initial_state kFloatDtype))))"
    and dist: "distinct (fst (NextTick_times 3 (initial_state kFloatDtype)))"
    by blast+
  from incr dist h1 h2 show ?thesis
    by (simp add: vals)
qed

text \<open>
  Counterexample to C6 as stated (for every \<open>N\<close>): with \<open>N = 2 ^ 63\<close> calls from
  counter value 0, call number \<open>2 ^ 63 - 1\<close> returns the largest \<^verbatim>\<open>int64\<close> and the
  next increment leaves the range of \<^verbatim>\<open>int64\<close>; at the width of the counter the
  last call returns \<open>- 2 ^ 63\<close>, so the returned values are not increasing.
\<close>

theorem NextTick_wraparound_counterexample:
  "g_tick_counter (initial_state kFloatDtype) = 0 \<and>
   \<not> sorted_wrt (<) (map sint (fst (NextTick_times (2 ^ 63) (initial_state kFloatDtype))))"
proof -
  let ?s = "initial_state kFloatDtype"
  let ?ts = "fst (NextTick_times (2 ^ 63) ?s)"
  have zero: "g_tick_counter ?s = 0"
    by (simp add: initial_state_def)
  have a: "?ts ! 9223372036854775806 = 9223372036854775807"
    using NextTick_times_nth [of 9223372036854775806 "2 ^ 63" ?s] zero by simp
  have b: "?ts ! 9223372036854775807 = 9223372036854775808"
    using NextTick_times_nth [of 9223372036854775807 "2 ^ 63" ?s] zero by simp
  have sa: "sint (?ts ! 9223372036854775806) = 9223372036854775807"
    unfolding a by simp
  have sb: "sint (?ts ! 9223372036854775807) = - 9223372036854775808"
    unfolding b by simp
  have "\<not> sorted_wrt (<) (map sint ?ts)"
  proof
    assume "sorted_wrt (<) (map sint ?ts)"
    then have "map sint ?ts ! 9223372036854775806 < map sint ?ts ! 9223372036854775807"
      by (rule sorted_wrt_nth_less) (simp_all add: NextTick_times_length)
    then show False
      using sa sb by (simp add: NextTick_times_length)
  qed
  with zero show ?thesis by simp
qed

subsection \<open>Sequences of calls\<close>

lemma run_nth:
  "i < length cs \<Longrightarrow> fst (run cs s) ! i = fst (perform (cs ! i) (snd (run (take i cs) s)))"
proof (induction cs arbitrary: i s)
  case Nil
  then show ?case by simp
next
  case (Cons c cs)
  show ?case
  proof (cases i)
    case 0
    then show ?thesis by (simp add: case_prod_beta)
  next
    case (Suc j)
    with Cons.prems have "j < length cs" by simp
    from Cons.IH [OF this, of "snd (perform c s)"] Suc show ?thesis
      by (simp add: case_prod_beta)
  qed
qed

lemma default_device_run:
  "default_device (snd (run cs s)) =
     (case last_installed_device cs of Some d \<Rightarrow> d | None \<Rightarrow> default_device s)"
proof (induction cs arbitrary: s)
  case Nil
  then show ?case by simp
next
  case (Cons c cs)
  show ?case
    using Cons [of "snd (perform c s)"]
    by (cases c) (simp_all add: case_prod_beta call_defs Let_def split: option.splits)
qed

lemma default_dtype_run:
  "default_dtype (snd (run cs s)) =
     (case last_installed_dtype cs of Some d \<Rightarrow> d | None \<Rightarrow> default_dtype s)"
proof (induction cs arbitrary: s)
  case Nil
  then show ?case by simp
next
  case (Cons c cs)
  show ?case
    using Cons [of "snd (perform c s)"]
    by (cases c) (simp_all add: case_prod_beta call_defs Let_def split: option.splits)
qed

lemma debug_mode_run:
  "debug_mode (snd (run cs s)) =
     (case last_debug_mode_set cs of Some b \<Rightarrow> b | None \<Rightarrow> debug_mode s)"
proof (induction cs arbitrary: s)
  case Nil
  then show ?case by simp
next
  case (Cons c cs)
  show ?case
    using Cons [of "snd (perform c s)"]
    by (cases c) (simp_all add: case_prod_beta call_defs Let_def split: option.splits)
qed

lemma g_tick_counter_run:
  "g_tick_counter (snd (run cs s)) =
     (case last_issued_tick (zip cs (fst (run cs s))) of
        Some t \<Rightarrow> t
      | None \<Rightarrow> g_tick_counter s)"
proof (induction cs arbitrary: s)
  case Nil
  then show ?case by simp
next
  case (Cons c cs)
  show ?case
    using Cons [of "snd (perform c s)"]
    by (cases c) (simp_all add: case_prod_beta call_defs Let_def split: option.splits)
qed

lemma run_without_CurrentTick:
  "snd (run cs s) = snd (run (filter (\<lambda>c. c \<noteq> Call_CurrentTick) cs) s) \<and>
   map snd (filter (\<lambda>(c, r). c \<noteq> Call_CurrentTick) (zip cs (fst (run cs s)))) =
     fst (run (filter (\<lambda>c. c \<noteq> Call_CurrentTick) cs) s)"
proof (induction cs arbitrary: s)
  case Nil
  then show ?case by simp
next
  case (Cons c cs)
  show ?case
    using Cons [of "snd (perform c s)"]
    by (cases c) (simp_all add: case_prod_beta CurrentTick_def)
qed

lemma last_debug_mode_set_snoc:
  "last_debug_mode_set (cs @ [Call_SetDebugMode b]) = Some b"
  by (induction cs) simp_all

text \<open>
  C7: after any sequence \<open>cs\<close> of calls from any state \<open>s\<close>, \<^verbatim>\<open>GetDefaultDevice\<close>
  returns the device most recently installed by \<^verbatim>\<open>SetDefaultDevice\<close> in \<open>cs\<close>, or
  the register's initial content if \<open>cs\<close> has no such call, and likewise
  \<^verbatim>\<open>GetDefaultDtype\<close>; the same holds for every getter call inside the sequence (at
  position \<open>i\<close>), with respect to the calls before it. A setter overwrites its register
  with its argument, whatever the register held.
\<close>

theorem getters_return_last_installed:
  "fst (GetDefaultDevice (snd (run cs s))) =
     (case last_installed_device cs of Some d \<Rightarrow> d | None \<Rightarrow> default_device s) \<and>
   fst (GetDefaultDtype (snd (run cs s))) =
     (case last_installed_dtype cs of Some d \<Rightarrow> d | None \<Rightarrow> default_dtype s) \<and>
   (i < length cs \<and> cs ! i = Call_GetDefaultDevice \<longrightarrow>
      fst (run cs s) ! i =
        Reply_Device (case last_installed_device (take i cs) of
                        Some d \<Rightarrow> d
                      | None \<Rightarrow> default_device s)) \<and>
   (i < length cs \<and> cs ! i = Call_GetDefaultDtype \<longrightarrow>
      fst (run cs s) ! i =
        Reply_Dtype (case last_installed_dtype (take i cs) of
                       Some d \<Rightarrow> d
                     | None \<Rightarrow> default_dtype s)) \<and>
   fst (GetDefaultDevice (SetDefaultDevice dev s)) = dev \<and>
   fst (GetDefaultDtype (SetDefaultDtype dt s)) = dt"
  by (simp add: run_nth default_device_run default_dtype_run register_defs)

text \<open>
  Witness for C7: set the device to CUDA, read the dtype, read the device, set the dtype
  to Double, read the dtype. The read at position 2 returns CUDA and the one at
  position 4 returns Double; the read at position 1 returns the initial dtype.
\<close>

theorem getters_return_last_installed_witness:
  "(2::nat) < length [Call_SetDefaultDevice (Device_of kCudaDevice), Call_GetDefaultDtype,
      Call_GetDefaultDevice, Call_SetDefaultDtype kDoubleDtype, Call_GetDefaultDtype] \<and>
   [Call_SetDefaultDevice (Device_of kCudaDevice), Call_GetDefaultDtype,
      Call_GetDefaultDevice, Call_SetDefaultDtype kDoubleDtype, Call_GetDefaultDtype] ! 2 =
     Call_GetDefaultDevice \<and>
   [Call_SetDefaultDevice (Device_of kCudaDevice), Call_GetDefaultDtype,
      Call_GetDefaultDevice, Call_SetDefaultDtype kDoubleDtype, Call_GetDefaultDtype] ! 4 =
     Call_GetDefaultDtype \<and>
   fst (run [Call_SetDefaultDevice (Device_of kCudaDevice), Call_GetDefaultDtype,
      Call_GetDefaultDevice, Call_SetDefaultDtype kDoubleDtype, Call_GetDefaultDtype]
      (initial_state kFloatDtype)) =
     [Reply_Void, Reply_Dtype kFloatDtype, Reply_Device (Device_of kCudaDevice), Reply_Void,
      Reply_Dtype kDoubleDtype]"
proof -
  let ?cs = "[Call_SetDefaultDevice (Device_of kCudaDevice), Call_GetDefaultDtype,
      Call_GetDefaultDevice, Call_SetDefaultDtype kDoubleDtype, Call_GetDefaultDtype]"
  let ?s = "initial_state kFloatDtype"
  have len: "length (fst (run ?cs ?s)) = 5"
    by (simp add: case_prod_beta)
  have r0: "fst (run ?cs ?s) ! 0 = Reply_Void"
    by (simp add: case_prod_beta)
  have r3: "fst (run ?cs ?s) ! 3 = Reply_Void"
    by (simp add: case_prod_beta numeral_3_eq_3)
  have r1: "fst (run ?cs ?s) ! 1 = Reply_Dtype kFloatDtype"
    using getters_return_last_installed [of ?cs ?s 1]
    by (simp add: initial_state_def)
  have r2: "fst (run ?cs ?s) ! 2 = Reply_Device (Device_of kCudaDevice)"
    using getters_return_last_installed [of ?cs ?s 2]
    by (simp add: numeral_2_eq_2)
  have r4: "fst (run ?cs ?s) ! 4 = Reply_Dtype kDoubleDtype"
    using getters_return_last_installed [of ?cs ?s 4]
    by (simp add: eval_nat_numeral)
  have "fst (run ?cs ?s) =
        [Reply_Void, Reply_Dtype kFloatDtype, Reply_Device (Device_of kCudaDevice), Reply_Void,
         Reply_Dtype kDoubleDtype]"
    using len r0 r1 r2 r3 r4
    by (intro nth_equalityI) (auto simp: less_Suc_eq eval_nat_numeral)
  then show ?thesis
    by (simp add: eval_nat_numeral)
qed

text \<open>
  C8: after any sequence \<open>cs\<close> of calls from any state \<open>s\<close>, \<^verbatim>\<open>CurrentTick\<close> returns
  the value returned by the most recent \<^verbatim>\<open>NextTick\<close> of \<open>cs\<close>, or the counter's
  starting value if \<open>cs\<close> has no such call, which is 0 from the initial state.
  \<^verbatim>\<open>CurrentTick\<close> leaves the whole state as it was, any number of times over, and
  deleting the \<^verbatim>\<open>CurrentTick\<close> calls from a sequence changes neither what the other
  calls return nor the final state.
\<close>

theorem CurrentTick_reads_last_tick:
  "fst (CurrentTick (snd (run cs s))) =
     (case last_issued_tick (zip cs (fst (run cs s))) of
        Some t \<Rightarrow> t
      | None \<Rightarrow> g_tick_counter s) \<and>
   fst (CurrentTick (snd (run cs (initial_state d0)))) =
     (case last_issued_tick (zip cs (fst (run cs (initial_state d0)))) of
        Some t \<Rightarrow> t
      | None \<Rightarrow> 0) \<and>
   fst (CurrentTick (snd (NextTick s))) = fst (NextTick s) \<and>
   fst (CurrentTick (initial_state d0)) = 0 \<and>
   snd (CurrentTick s) = s \<and>
   ((\<lambda>s. snd (CurrentTick s)) ^^ n) s = s \<and>
   snd (run cs s) = snd (run (filter (\<lambda>c. c \<noteq> Call_CurrentTick) cs) s) \<and>
   map snd (filter (\<lambda>(c, r). c \<noteq> Call_CurrentTick) (zip cs (fst (run cs s)))) =
     fst (run (filter (\<lambda>c. c \<noteq> Call_CurrentTick) cs) s)"
proof -
  have last: "fst (CurrentTick (snd (run cs s'))) =
     (case last_issued_tick (zip cs (fst (run cs s'))) of
        Some t \<Rightarrow> t
      | None \<Rightarrow> g_tick_counter s')" for s'
    using g_tick_counter_run [of cs s'] by (simp add: CurrentTick_def)
  have init: "g_tick_counter (initial_state d0) = 0"
    by (simp add: initial_state_def)
  have last0: "fst (CurrentTick (snd (run cs (initial_state d0)))) =
     (case last_issued_tick (zip cs (fst (run cs (initial_state d0)))) of
        Some t \<Rightarrow> t
      | None \<Rightarrow> 0)"
    using last [of "initial_state d0"] by (simp only: init)
  have after_next: "fst (CurrentTick (snd (NextTick s))) = fst (NextTick s)"
    by (simp add: CurrentTick_def NextTick_def Let_def)
  have fresh: "fst (CurrentTick (initial_state d0)) = 0"
    by (simp add: CurrentTick_def init)
  have frame: "snd (CurrentTick s) = s"
    by (simp add: CurrentTick_def)
  have idle: "((\<lambda>s. snd (CurrentTick s)) ^^ n) s = s"
    by (induction n) (simp_all add: CurrentTick_def)
  show ?thesis
    by (intro conjI last last0 after_next fresh frame idle
        run_without_CurrentTick [THEN conjunct1] run_without_CurrentTick [THEN conjunct2])
qed

text \<open>
  C9: \<^verbatim>\<open>DebugMode\<close> returns false in the initial state; after any sequence of calls
  it returns the argument of the most recent \<^verbatim>\<open>SetDebugMode\<close> among them (the flag's
  starting value if there is none), in particular \<open>b\<close> after any sequence of
  \<^verbatim>\<open>SetDebugMode\<close> calls that ends with \<^verbatim>\<open>SetDebugMode(b)\<close>. Reading the flag
  leaves the state as it was.
\<close>

theorem DebugMode_reads_last_set:
  "fst (DebugMode (initial_state d0)) = False \<and>
   fst (DebugMode (snd (run cs s))) =
     (case last_debug_mode_set cs of Some b \<Rightarrow> b | None \<Rightarrow> debug_mode s) \<and>
   fst (DebugMode (snd (run (map Call_SetDebugMode (bs @ [b])) s))) = b \<and>
   fst (DebugMode (snd (run (cs @ [Call_SetDebugMode b]) s))) = b \<and>
   fst (DebugMode (SetDebugMode b s)) = b \<and>
   snd (DebugMode s) = s"
  by (simp add: DebugMode_def SetDebugMode_def debug_mode_run last_debug_mode_set_snoc
      initial_state_def)

end
